theory Spec2Isabelle
  imports Main
begin

unbundle bit_operations_syntax

section \<open>Go strings\<close>

text \<open>
  A Go string is a sequence of bytes; \<^typ>\<open>string\<close> is a list of 8-bit characters, so
  \<open>[]byte(s)\<close> is the string itself and \<open>+\<close> is \<open>@\<close>.
\<close>

text \<open>\<open>strings.Join(elems, sep)\<close>.\<close>

fun Join :: "string list \<Rightarrow> string \<Rightarrow> string" where
  "Join [] sep = []"
| "Join [x] sep = x"
| "Join (x # y # ys) sep = x @ sep @ Join (y # ys) sep"

text \<open>
  \<open>strings.Split(s, sep)\<close> for a separator of one byte, the only use in the program
  (\<open>strings.Split(p, ":")\<close>): the pieces between the separators; never the empty list.
\<close>

fun Split :: "string \<Rightarrow> char \<Rightarrow> string list" where
  "Split [] sep = [[]]"
| "Split (c # s) sep =
     (if c = sep then [] # Split s sep
      else (case Split s sep of [] \<Rightarrow> [[c]] | p # ps \<Rightarrow> (c # p) # ps))"

text \<open>\<open>strings.Contains(s, sub)\<close> for a one-byte \<open>sub\<close> (\<open>strings.Contains(containerPort, "/")\<close>).\<close>

definition Contains :: "string \<Rightarrow> char \<Rightarrow> bool" where
  "Contains s c = (c \<in> set s)"

text \<open>\<open>strings.HasPrefix(s, prefix)\<close>.\<close>

definition HasPrefix :: "string \<Rightarrow> string \<Rightarrow> bool" where
  "HasPrefix s p = (take (length p) s = p)"

text \<open>
  \<open>strings.TrimSpace(s)\<close> removes leading and trailing white space as Unicode defines it.
  On the bytes of a string these are the six ASCII space characters and the UTF-8
  encodings of U+0085, U+00A0, U+1680, U+2000 to U+200A, U+2028, U+2029, U+202F, U+205F
  and U+3000; a byte sequence that is not valid UTF-8 decodes to the replacement rune,
  which is no space.
\<close>

definition spaceRunes :: "string list" where
  "spaceRunes =
    [[CHR 0x09], [CHR 0x0A], [CHR 0x0B], [CHR 0x0C], [CHR 0x0D], [CHR 0x20],
     [CHR 0xC2, CHR 0x85], [CHR 0xC2, CHR 0xA0], [CHR 0xE1, CHR 0x9A, CHR 0x80],
     [CHR 0xE2, CHR 0x80, CHR 0x80], [CHR 0xE2, CHR 0x80, CHR 0x81],
     [CHR 0xE2, CHR 0x80, CHR 0x82], [CHR 0xE2, CHR 0x80, CHR 0x83],
     [CHR 0xE2, CHR 0x80, CHR 0x84], [CHR 0xE2, CHR 0x80, CHR 0x85],
     [CHR 0xE2, CHR 0x80, CHR 0x86], [CHR 0xE2, CHR 0x80, CHR 0x87],
     [CHR 0xE2, CHR 0x80, CHR 0x88], [CHR 0xE2, CHR 0x80, CHR 0x89],
     [CHR 0xE2, CHR 0x80, CHR 0x8A], [CHR 0xE2, CHR 0x80, CHR 0xA8],
     [CHR 0xE2, CHR 0x80, CHR 0xA9], [CHR 0xE2, CHR 0x80, CHR 0xAF],
     [CHR 0xE2, CHR 0x81, CHR 0x9F], [CHR 0xE3, CHR 0x80, CHR 0x80]]"

text \<open>The width in bytes of the rune of \<open>runes\<close> that \<open>s\<close> starts with, 0 if there is none.\<close>

definition runeWidth :: "string list \<Rightarrow> string \<Rightarrow> nat" where
  "runeWidth runes s =
     (case find (\<lambda>r. take (length r) s = r) runes of None \<Rightarrow> 0 | Some r \<Rightarrow> length r)"

fun stripRunes :: "string list \<Rightarrow> string \<Rightarrow> string" where
  "stripRunes runes [] = []"
| "stripRunes runes (c # s) =
     (case runeWidth runes (c # s) of 0 \<Rightarrow> c # s | Suc n \<Rightarrow> stripRunes runes (drop n s))"

definition TrimSpace :: "string \<Rightarrow> string" where
  "TrimSpace s = rev (stripRunes (map rev spaceRunes) (rev (stripRunes spaceRunes s)))"


section \<open>SHA-256 and hex formatting\<close>

text \<open>
  \<open>crypto/sha256\<close> of the Go standard library computes SHA-256 as FIPS 180-4 defines
  it. 32-bit words are natural numbers below \<open>2 ^ 32\<close>, with the reduction written
  out (\<open>take_bit 32\<close>); the round constants and the initial hash value are written in
  decimal.
\<close>

type_synonym u32 = nat
type_synonym hstate = "u32 \<times> u32 \<times> u32 \<times> u32 \<times> u32 \<times> u32 \<times> u32 \<times> u32"

definition K256 :: "u32 list" where
  "K256 = [
   1116352408, 1899447441, 3049323471, 3921009573, 961987163, 1508970993, 2453635748, 2870763221,
   3624381080, 310598401, 607225278, 1426881987, 1925078388, 2162078206, 2614888103, 3248222580,
   3835390401, 4022224774, 264347078, 604807628, 770255983, 1249150122, 1555081692, 1996064986,
   2554220882, 2821834349, 2952996808, 3210313671, 3336571891, 3584528711, 113926993, 338241895,
   666307205, 773529912, 1294757372, 1396182291, 1695183700, 1986661051, 2177026350, 2456956037,
   2730485921, 2820302411, 3259730800, 3345764771, 3516065817, 3600352804, 4094571909, 275423344,
   430227734, 506948616, 659060556, 883997877, 958139571, 1322822218, 1537002063, 1747873779,
   1955562222, 2024104815, 2227730452, 2361852424, 2428436474, 2756734187, 3204031479, 3329325298]"

definition H0 :: hstate where
  "H0 = (1779033703, 3144134277, 1013904242, 2773480762,
         1359893119, 2600822924, 528734635, 1541459225)"

definition add32 :: "u32 \<Rightarrow> u32 \<Rightarrow> u32" where
  "add32 x y = take_bit 32 (x + y)"

definition rotr :: "nat \<Rightarrow> u32 \<Rightarrow> u32" where
  "rotr n x = drop_bit n x OR take_bit 32 (push_bit (32 - n) x)"

definition Ch :: "u32 \<Rightarrow> u32 \<Rightarrow> u32 \<Rightarrow> u32" where
  "Ch x y z = (x AND y) XOR ((0xffffffff - x) AND z)"

definition Maj :: "u32 \<Rightarrow> u32 \<Rightarrow> u32 \<Rightarrow> u32" where
  "Maj x y z = (x AND y) XOR (x AND z) XOR (y AND z)"

definition bsig0 :: "u32 \<Rightarrow> u32" where
  "bsig0 x = rotr 2 x XOR rotr 13 x XOR rotr 22 x"

definition bsig1 :: "u32 \<Rightarrow> u32" where
  "bsig1 x = rotr 6 x XOR rotr 11 x XOR rotr 25 x"

definition ssig0 :: "u32 \<Rightarrow> u32" where
  "ssig0 x = rotr 7 x XOR rotr 18 x XOR drop_bit 3 x"

definition ssig1 :: "u32 \<Rightarrow> u32" where
  "ssig1 x = rotr 17 x XOR rotr 19 x XOR drop_bit 10 x"

text \<open>One round: the two temporaries \<open>T1\<close> and \<open>T2\<close>, then the rotation of the working variables.\<close>

fun shift_vars :: "u32 \<Rightarrow> u32 \<Rightarrow> hstate \<Rightarrow> hstate" where
  "shift_vars t1 t2 (a, b, c, d, e, f, g, h) = (add32 t1 t2, a, b, c, add32 d t1, e, f, g)"

fun round256 :: "u32 \<Rightarrow> u32 \<Rightarrow> hstate \<Rightarrow> hstate" where
  "round256 k w (a, b, c, d, e, f, g, h) =
     shift_vars (take_bit 32 (h + bsig1 e + Ch e f g + k + w)) (add32 (bsig0 a) (Maj a b c))
       (a, b, c, d, e, f, g, h)"

text \<open>
  The 64 rounds over the round constants. \<open>w\<close> holds the 16 most recent words of the
  message schedule, oldest first: \<open>w ! 0\<close> is \<open>W t\<close>, and \<open>W (t + 16)\<close> is appended.
\<close>

fun rounds :: "u32 list \<Rightarrow> u32 list \<Rightarrow> hstate \<Rightarrow> hstate" where
  "rounds [] w s = s"
| "rounds (k # ks) w s =
     rounds ks (tl w @ [take_bit 32 (ssig1 (w ! 14) + w ! 9 + ssig0 (w ! 1) + w ! 0)])
       (round256 k (w ! 0) s)"

fun add_state :: "hstate \<Rightarrow> hstate \<Rightarrow> hstate" where
  "add_state (a, b, c, d, e, f, g, h) (a', b', c', d', e', f', g', h') =
     (add32 a a', add32 b b', add32 c c', add32 d d',
      add32 e e', add32 f f', add32 g g', add32 h h')"

definition compress :: "hstate \<Rightarrow> u32 list \<Rightarrow> hstate" where
  "compress s w = add_state s (rounds K256 w s)"

text \<open>Padding: the byte 0x80, zeros up to 56 modulo 64, the bit length in 8 bytes.\<close>

definition pad :: "nat list \<Rightarrow> nat list" where
  "pad m = m @ [0x80] @ replicate ((119 - length m mod 64) mod 64) 0 @
     map (\<lambda>k. drop_bit (8 * k) (8 * length m) mod 256) [7, 6, 5, 4, 3, 2, 1, 0]"

fun be32 :: "nat list \<Rightarrow> u32 list" where
  "be32 (a # b # c # d # r) = (((a * 256 + b) * 256 + c) * 256 + d) # be32 r"
| "be32 r = []"

fun blocks :: "u32 list \<Rightarrow> hstate \<Rightarrow> hstate" where
  "blocks ws s = (if length ws < 16 then s else blocks (drop 16 ws) (compress s (take 16 ws)))"

declare blocks.simps [simp del]

definition sha256 :: "string \<Rightarrow> hstate" where
  "sha256 m = blocks (be32 (pad (map of_char m))) H0"

definition wordBytes :: "u32 \<Rightarrow> nat list" where
  "wordBytes w = [drop_bit 24 w mod 256, drop_bit 16 w mod 256, drop_bit 8 w mod 256, w mod 256]"

fun digestBytes :: "hstate \<Rightarrow> nat list" where
  "digestBytes (a, b, c, d, e, f, g, h) = concat (map wordBytes [a, b, c, d, e, f, g, h])"

text \<open>
  A running hash (\<open>sha256.New()\<close>): \<open>Write\<close> appends to what was written, \<open>Sum(nil)\<close> is
  the 32-byte digest of everything written so far.
\<close>

datatype digest = Digest (written: string)

definition New :: digest where
  "New = Digest []"

fun Write :: "digest \<Rightarrow> string \<Rightarrow> digest" where
  "Write (Digest w) p = Digest (w @ p)"

fun Sum :: "digest \<Rightarrow> nat list" where
  "Sum (Digest w) = digestBytes (sha256 w)"

text \<open>\<open>fmt.Sprintf("%x", b)\<close> on a byte slice: two lowercase hex digits for each byte.\<close>

definition hexDigits :: string where
  "hexDigits = ''0123456789abcdef''"

definition hexDigit :: "nat \<Rightarrow> char" where
  "hexDigit n = hexDigits ! n"

definition hexByte :: "nat \<Rightarrow> string" where
  "hexByte b = [hexDigit (b div 16), hexDigit (b mod 16)]"

definition Sprintf_x :: "nat list \<Rightarrow> string" where
  "Sprintf_x bs = concat (map hexByte bs)"

definition hashString :: "string \<Rightarrow> string" where
  "hashString s = Sprintf_x (Sum (Write New s))"





section \<open>Layers\<close>

text \<open>
  The five implementations of the \<open>Layer\<close> interface, one constructor each, with the
  fields of the struct in the order of their declaration.
\<close>

datatype Layer =
    BaseLayer string "string list" "string list"
  | DependencyLayer string "string list" "string list" "string list"
  | CustomLayer string "string list" "string list" "string list"
  | TopLayer string string string "string list" "string list"
  | CustomTopLayer string "string list" "string list" string

fun GetName :: "Layer \<Rightarrow> string" where
  "GetName (BaseLayer img volumes ports) = ''base''"
| "GetName (DependencyLayer name pkgs volumes ports) = name"
| "GetName (CustomLayer name commands volumes ports) = name"
| "GetName (TopLayer name binaryURL binaryPath volumes ports) = name"
| "GetName (CustomTopLayer name commands entry hashKey) = name"

fun GetCommands :: "Layer \<Rightarrow> string list" where
  "GetCommands (BaseLayer img volumes ports) = [''FROM '' @ img]"
| "GetCommands (DependencyLayer name pkgs volumes ports) =
     [''RUN apt-get update && apt-get install -y '' @ Join pkgs '' '' @
      '' && rm -rf /var/lib/apt/lists/*'']"
| "GetCommands (CustomLayer name commands volumes ports) = commands"
| "GetCommands (TopLayer name binaryURL binaryPath volumes ports) =
     [(if HasPrefix binaryURL ''http'' then ''ADD '' @ binaryURL @ '' '' @ binaryPath
       else ''COPY '' @ binaryURL @ '' '' @ binaryPath),
      ''RUN chmod +x '' @ binaryPath,
      ''ENTRYPOINT ['' @ [CHR 0x22] @ binaryPath @ [CHR 0x22] @ '']'']"
| "GetCommands (CustomTopLayer name commands entry hashKey) =
     (if length entry > 0
      then commands @
        [''ENTRYPOINT ['' @ [CHR 0x22] @ Join entry ([CHR 0x22] @ '', '' @ [CHR 0x22]) @
         [CHR 0x22] @ '']'']
      else commands)"

text \<open>The text each \<open>GetHash\<close> passes to \<open>hashString\<close>.\<close>

fun hashText :: "Layer \<Rightarrow> string" where
  "hashText (BaseLayer img volumes ports) = img @ Join volumes '','' @ Join ports '',''"
| "hashText (DependencyLayer name pkgs volumes ports) =
     Join pkgs '','' @ Join volumes '','' @ Join ports '',''"
| "hashText (CustomLayer name commands volumes ports) =
     name @ Join commands [] @ Join volumes [] @ Join ports []"
| "hashText (TopLayer name binaryURL binaryPath volumes ports) =
     binaryURL @ '':'' @ binaryPath @ Join volumes '','' @ Join ports '',''"
| "hashText (CustomTopLayer name commands entry hashKey) =
     name @ hashKey @ Join commands [] @ Join entry []"

definition GetHash :: "Layer \<Rightarrow> string" where
  "GetHash l = hashString (hashText l)"

fun GetVolumes :: "Layer \<Rightarrow> string list" where
  "GetVolumes (BaseLayer img volumes ports) = volumes"
| "GetVolumes (DependencyLayer name pkgs volumes ports) = volumes"
| "GetVolumes (CustomLayer name commands volumes ports) = volumes"
| "GetVolumes (TopLayer name binaryURL binaryPath volumes ports) = volumes"
| "GetVolumes (CustomTopLayer name commands entry hashKey) = []"

fun GetPorts :: "Layer \<Rightarrow> string list" where
  "GetPorts (BaseLayer img volumes ports) = ports"
| "GetPorts (DependencyLayer name pkgs volumes ports) = ports"
| "GetPorts (CustomLayer name commands volumes ports) = ports"
| "GetPorts (TopLayer name binaryURL binaryPath volumes ports) = ports"
| "GetPorts (CustomTopLayer name commands entry hashKey) = []"

section \<open>Errors, the registry\<close>

text \<open>
  An error is made by \<open>fmt.Errorf\<close> (carrying its message) or comes from the container
  engine's client; of the latter, \<open>client.IsErrNotFound\<close> holds for \<open>ErrNotFound\<close> only.
\<close>

datatype error = Errorf string | ErrNotFound string | ErrOther string

fun IsErrNotFound :: "error \<Rightarrow> bool" where
  "IsErrNotFound (ErrNotFound m) = True"
| "IsErrNotFound e = False"

type_synonym registry = "string \<rightharpoonup> Layer"

definition Register :: "registry \<Rightarrow> Layer \<Rightarrow> registry" where
  "Register reg l = reg(GetName l \<mapsto> l)"

definition Get :: "registry \<Rightarrow> string \<Rightarrow> error + Layer" where
  "Get reg name =
     (case reg name of
        None \<Rightarrow> Inl (Errorf (''layer '' @ name @ '' not found''))
      | Some l \<Rightarrow> Inr l)"

text \<open>The registry after \<open>init\<close>: the default layers, registered in the order of the source.\<close>

definition init_registry :: registry where
  "init_registry = foldl Register Map.empty
     [DependencyLayer ''python'' [''python3'', ''python3-pip''] [] [],
      DependencyLayer ''node'' [''nodejs'', ''npm''] [] [],
      DependencyLayer ''go'' [''golang''] [] [],
      DependencyLayer ''nginx'' [''nginx''] [] [''80''],
      CustomLayer ''node-pnpm''
        [''RUN apt-get update && apt-get install -y nodejs npm && rm -rf /var/lib/apt/lists/*'',
         ''RUN npm install -g pnpm''] [] [],
      CustomTopLayer ''opencode''
        [''RUN apt-get update && apt-get install -y nodejs npm && rm -rf /var/lib/apt/lists/*'',
         ''RUN npm install -g pnpm'',
         ''RUN pnpm add -g opencode-ai''] [''opencode''] ''v1.1.59'',
      TopLayer ''hello-world''
        ''https://github.com/docker-library/hello-world/raw/master/hello'' ''/hello'' [] []]"

section \<open>The builder\<close>

text \<open>
  What leaves the program: every call to the container engine, every line printed and
  every registry lookup, in the order in which they happen.
\<close>

record PortBinding =
  HostIP :: string
  HostPort :: string

type_synonym PortSet = "string set"
type_synonym PortMap = "string \<rightharpoonup> PortBinding list"

datatype event =
    GetCall string
  | Printed string
  | InspectCall string
  | BuildCall string string
  | CreateCall string PortSet PortMap "string list"
  | StartCall string
  | WaitCall string
  | LogsCall string

text \<open>What a call returns: no error, an error, or a run-time panic.\<close>

datatype outcome = Ok | Err error | Panicked

text \<open>
  What \<open>select\<close> receives first after \<open>ContainerWait\<close>: a value of the error channel
  (possibly \<open>nil\<close>) or a status.
\<close>

datatype wait_result = WaitErr "error option" | WaitStatus

text \<open>
  The container engine behind \<open>b.cli\<close>, as the answers it gives. \<open>WriteTar\<close> answers for
  the three writes of the build context (\<open>WriteHeader\<close>, \<open>Write\<close>, \<open>Close\<close>), and
  \<open>CopyOutput\<close> for the \<open>io.Copy\<close> of the build output.
\<close>

record Builder =
  ImageInspectWithRaw :: "string \<Rightarrow> error option"
  WriteTar :: "string \<Rightarrow> error option"
  ImageBuild :: "string \<Rightarrow> string \<Rightarrow> error option"
  CopyOutput :: "string \<Rightarrow> error option"
  ContainerCreate :: "string \<Rightarrow> PortSet \<Rightarrow> PortMap \<Rightarrow> string list \<Rightarrow> error + string"
  ContainerStart :: "string \<Rightarrow> error option"
  ContainerWait :: "string \<Rightarrow> wait_result"
  ContainerLogs :: "string \<Rightarrow> error option"

text \<open>\<open>generateDockerfile\<close>: \<open>sb\<close> is the \<open>strings.Builder\<close>, the two loops are folds from the left.\<close>

definition writeCommands :: "string \<Rightarrow> string list \<Rightarrow> string" where
  "writeCommands sb cmds = foldl (\<lambda>sb cmd. sb @ (cmd @ [CHR 0x0A])) sb cmds"

definition generateDockerfile :: "Layer \<Rightarrow> Layer list \<Rightarrow> string" where
  "generateDockerfile base selected =
     foldl (\<lambda>sb l. writeCommands sb (GetCommands l)) (writeCommands [] (GetCommands base)) selected"

text \<open>\<open>calculateTag\<close>: one running hash, the base's fingerprint written first.\<close>

definition writeHashes :: "digest \<Rightarrow> Layer list \<Rightarrow> digest" where
  "writeHashes h selected = foldl (\<lambda>h l. Write h (GetHash l)) h selected"

definition calculateTag :: "Layer \<Rightarrow> Layer list \<Rightarrow> string" where
  "calculateTag base selected =
     take 12 (Sprintf_x (Sum (writeHashes (Write New (GetHash base)) selected)))"

definition imageExists :: "Builder \<Rightarrow> string \<Rightarrow> bool \<times> error option" where
  "imageExists b name =
     (case ImageInspectWithRaw b name of
        Some err \<Rightarrow> if IsErrNotFound err then (False, None) else (False, Some err)
      | None \<Rightarrow> (True, None))"

definition buildImage :: "Builder \<Rightarrow> string \<Rightarrow> string \<Rightarrow> outcome \<times> event list" where
  "buildImage b dockerfile tag =
     (case WriteTar b dockerfile of
        Some err \<Rightarrow> (Err err, [])
      | None \<Rightarrow>
          (case ImageBuild b dockerfile tag of
             Some err \<Rightarrow> (Err err, [BuildCall dockerfile tag])
           | None \<Rightarrow>
               (case CopyOutput b tag of
                  Some err \<Rightarrow> (Err err, [BuildCall dockerfile tag])
                | None \<Rightarrow> (Ok, [BuildCall dockerfile tag]))))"

text \<open>
  The body of the loop over the port specs of \<open>runContainer\<close>. \<open>portParts\<close> reads the
  host and container port off the pieces of the spec (\<open>hostPort\<close> stays \<open>""\<close> unless
  there are exactly two pieces; \<open>Split\<close> never returns no piece).
\<close>

fun portParts :: "string list \<Rightarrow> string \<times> string" where
  "portParts [h, c] = (h, c)"
| "portParts (c # rest) = ([], c)"
| "portParts [] = ([], [])"

definition withProtocol :: "string \<Rightarrow> string" where
  "withProtocol containerPort =
     (if \<not> Contains containerPort (CHR ''/'') then containerPort @ ''/tcp'' else containerPort)"

definition publishPort :: "PortSet \<times> PortMap \<Rightarrow> string \<Rightarrow> PortSet \<times> PortMap" where
  "publishPort st p =
     (case st of (exposedPorts, portBindings) \<Rightarrow>
        (case portParts (Split p (CHR '':'')) of (hostPort, containerPort) \<Rightarrow>
           (insert (withProtocol containerPort) exposedPorts,
            if hostPort \<noteq> []
            then portBindings(withProtocol containerPort \<mapsto>
                   [\<lparr>HostIP = ''0.0.0.0'', HostPort = hostPort\<rparr>])
            else portBindings)))"

definition runContainer ::
    "Builder \<Rightarrow> string \<Rightarrow> string list \<Rightarrow> string list \<Rightarrow> outcome \<times> event list" where
  "runContainer b imageName volumes ports =
     (case foldl publishPort ({}, Map.empty) ports of (exposedPorts, portBindings) \<Rightarrow>
        (case ContainerCreate b imageName exposedPorts portBindings volumes of
           Inl err \<Rightarrow> (Err err, [CreateCall imageName exposedPorts portBindings volumes])
         | Inr ident \<Rightarrow>
             (case ContainerStart b ident of
                Some err \<Rightarrow>
                  (Err err, [CreateCall imageName exposedPorts portBindings volumes, StartCall ident])
              | None \<Rightarrow>
                  if length ident < 12
                  then (Panicked,
                        [CreateCall imageName exposedPorts portBindings volumes, StartCall ident])
                  else
                    ((case ContainerWait b ident of
                        WaitErr (Some err) \<Rightarrow> Err err
                      | WaitErr None \<Rightarrow> Ok
                      | WaitStatus \<Rightarrow> Ok),
                     [CreateCall imageName exposedPorts portBindings volumes, StartCall ident,
                      Printed (''Container started (ID: '' @ take 12 ident @ '')'' @ [CHR 0x0A]),
                      WaitCall ident, LogsCall ident]))))"

definition collect :: "Layer \<Rightarrow> Layer list \<Rightarrow> string list \<times> string list" where
  "collect base selectedLayers =
     foldl (\<lambda>(volumes, ports) l. (volumes @ GetVolumes l, ports @ GetPorts l))
       (GetVolumes base, GetPorts base) selectedLayers"

definition BuildAndRun :: "Builder \<Rightarrow> Layer \<Rightarrow> Layer list \<Rightarrow> outcome \<times> event list" where
  "BuildAndRun b base selectedLayers =
     (let dockerfile = generateDockerfile base selectedLayers;
          imageName = ''aig-image:'' @ calculateTag base selectedLayers
      in case collect base selectedLayers of (volumes, ports) \<Rightarrow>
        (case imageExists b imageName of
           (exists, Some err) \<Rightarrow> (Err err, [InspectCall imageName])
         | (False, None) \<Rightarrow>
             (case buildImage b dockerfile imageName of
                (Ok, evs) \<Rightarrow>
                  (case runContainer b imageName volumes ports of (r, evs') \<Rightarrow>
                     (r, [InspectCall imageName,
                          Printed (''Building image '' @ imageName @ ''...'' @ [CHR 0x0A])]
                         @ evs @ evs'))
              | (r, evs) \<Rightarrow>
                  (r, [InspectCall imageName,
                       Printed (''Building image '' @ imageName @ ''...'' @ [CHR 0x0A])] @ evs))
         | (True, None) \<Rightarrow>
             (case runContainer b imageName volumes ports of (r, evs') \<Rightarrow>
                (r, [InspectCall imageName,
                     Printed (''Using cached image '' @ imageName @ [CHR 0x0A])] @ evs'))))"

section \<open>The run command\<close>

record Flags =
  baseImage :: string
  layerNames :: "string list"
  topLayerName :: string
  volumes :: "string list"
  ports :: "string list"

text \<open>The loop over \<open>layerNames\<close>: it returns at the first name that \<open>Get\<close> does not find.\<close>

fun selectLayers ::
    "registry \<Rightarrow> string list \<Rightarrow> Layer list \<Rightarrow> event list \<Rightarrow> (error + Layer list) \<times> event list" where
  "selectLayers reg [] selectedLayers evs = (Inr selectedLayers, evs)"
| "selectLayers reg (name # names) selectedLayers evs =
     (case Get reg (TrimSpace name) of
        Inl err \<Rightarrow> (Inl err, evs @ [GetCall (TrimSpace name)])
      | Inr l \<Rightarrow> selectLayers reg names (selectedLayers @ [l]) (evs @ [GetCall (TrimSpace name)]))"

text \<open>\<open>RunE\<close> of the run command; \<open>newBuilder\<close> is what \<open>docker.NewBuilder()\<close> returned.\<close>

definition RunE :: "error + Builder \<Rightarrow> registry \<Rightarrow> Flags \<Rightarrow> outcome \<times> event list" where
  "RunE newBuilder reg flags =
     (case newBuilder of
        Inl err \<Rightarrow> (Err err, [])
      | Inr builder \<Rightarrow>
          (let base = BaseLayer (baseImage flags) (volumes flags) (ports flags)
           in case selectLayers reg (layerNames flags) [] [] of
                (Inl err, evs) \<Rightarrow> (Err err, evs)
              | (Inr selectedLayers, evs) \<Rightarrow>
                  if topLayerName flags \<noteq> []
                  then (case Get reg (topLayerName flags) of
                          Inl err \<Rightarrow> (Err err, evs @ [GetCall (topLayerName flags)])
                        | Inr topLayer \<Rightarrow>
                            (case BuildAndRun builder base (selectedLayers @ [topLayer]) of (r, evs') \<Rightarrow>
                               (r, evs @ [GetCall (topLayerName flags)] @ evs')))
                  else (case BuildAndRun builder base selectedLayers of (r, evs') \<Rightarrow>
                          (r, evs @ evs'))))"


section \<open>Example inputs\<close>

text \<open>
  An engine that answers \<open>inspect\<close> to every image query and lets every other call
  succeed, creating the container \<open>0123456789abcdef\<close>.
\<close>

definition exampleBuilder :: "error option \<Rightarrow> Builder" where
  "exampleBuilder inspect =
     \<lparr>ImageInspectWithRaw = (\<lambda>name. inspect),
      WriteTar = (\<lambda>dockerfile. None),
      ImageBuild = (\<lambda>dockerfile tag. None),
      CopyOutput = (\<lambda>tag. None),
      ContainerCreate = (\<lambda>imageName exposedPorts portBindings binds. Inr ''0123456789abcdef''),
      ContainerStart = (\<lambda>ident. None),
      ContainerWait = (\<lambda>ident. WaitStatus),
      ContainerLogs = (\<lambda>ident. None)\<rparr>"

definition exampleBase :: Layer where
  "exampleBase = BaseLayer ''ubuntu:22.04'' [] []"

section \<open>The Dockerfile generator\<close>

lemma writeCommands_append:
  "writeCommands sb cmds = sb @ concat (map (\<lambda>cmd. cmd @ [CHR 0x0A]) cmds)"
  unfolding writeCommands_def by (induction cmds arbitrary: sb) simp_all

lemma foldl_writeCommands:
  "foldl (\<lambda>sb l. writeCommands sb (GetCommands l)) sb ls =
     sb @ concat (map (\<lambda>cmd. cmd @ [CHR 0x0A]) (concat (map GetCommands ls)))"
  by (induction ls arbitrary: sb) (simp_all add: writeCommands_append)

text \<open>
  C8. The generated Dockerfile is the concatenation, in stack order (the base first, then
  the selected layers in the given order), of every instruction of every layer, each
  followed by one newline; nothing is reordered, dropped or checked.
\<close>

theorem generateDockerfile_concat:
  "generateDockerfile base selected =
     concat (map (\<lambda>cmd. cmd @ [CHR 0x0A]) (concat (map GetCommands (base # selected))))"
proof -
  have "generateDockerfile base selected =
      writeCommands [] (GetCommands base) @
      concat (map (\<lambda>cmd. cmd @ [CHR 0x0A]) (concat (map GetCommands selected)))"
    unfolding generateDockerfile_def by (rule foldl_writeCommands)
  then show ?thesis by (simp add: writeCommands_append)
qed

section \<open>The tag\<close>

lemma writeHashes_written:
  "writeHashes h ls = Digest (written h @ concat (map GetHash ls))"
  unfolding writeHashes_def
proof (induction ls arbitrary: h)
  case Nil
  show ?case by simp
next
  case (Cons l ls)
  show ?case by (cases h) (simp add: Cons.IH)
qed

lemma length_Sprintf_x: "length (Sprintf_x bs) = 2 * length bs"
  unfolding Sprintf_x_def by (induction bs) (simp_all add: hexByte_def)

lemma length_digestBytes: "length (digestBytes s) = 32"
  by (cases s rule: digestBytes.cases) (simp add: wordBytes_def)

lemma length_Sum: "length (Sum h) = 32"
  by (cases h) (simp add: length_digestBytes)

lemma length_hashString: "length (hashString s) = 64"
  by (simp add: hashString_def length_Sprintf_x length_Sum)

lemma length_hexDigits: "length hexDigits = 16"
  by (simp add: hexDigits_def)

lemma hexDigit_range: "n < 16 \<Longrightarrow> hexDigit n \<in> set hexDigits"
  unfolding hexDigit_def by (rule nth_mem) (simp add: length_hexDigits)

lemma hexByte_range:
  assumes "b < 256"
  shows "set (hexByte b) \<subseteq> set hexDigits"
proof -
  from assms have "b div 16 < 16" by simp
  then have "hexDigit (b div 16) \<in> set hexDigits" by (rule hexDigit_range)
  moreover have "hexDigit (b mod 16) \<in> set hexDigits" by (rule hexDigit_range) simp
  ultimately show ?thesis unfolding hexByte_def by simp
qed

lemma Sprintf_x_range:
  "(\<And>b. b \<in> set bs \<Longrightarrow> b < 256) \<Longrightarrow> set (Sprintf_x bs) \<subseteq> set hexDigits"
  unfolding Sprintf_x_def by (induction bs) (simp_all add: hexByte_range)

lemma wordBytes_range: "b \<in> set (wordBytes w) \<Longrightarrow> b < 256"
  unfolding wordBytes_def by auto

lemma digestBytes_range: "b \<in> set (digestBytes s) \<Longrightarrow> b < 256"
  by (cases s rule: digestBytes.cases) (auto dest: wordBytes_range)

lemma Sum_range: "b \<in> set (Sum h) \<Longrightarrow> b < 256"
  by (cases h) (auto dest: digestBytes_range)

lemma hashString_range: "set (hashString s) \<subseteq> set hexDigits"
  unfolding hashString_def by (rule Sprintf_x_range) (rule Sum_range)

text \<open>
  C1. The tag of a stack is the first 12 characters of the lowercase hex SHA-256 digest
  of the layers' fingerprints, concatenated in stack order (the base first) as one
  running hash receives them; it always has exactly 12 characters, all hex digits.
\<close>

theorem calculateTag_digest_prefix:
  "calculateTag base selected = take 12 (hashString (concat (map GetHash (base # selected))))
   \<and> length (calculateTag base selected) = 12
   \<and> set (calculateTag base selected) \<subseteq> set ''0123456789abcdef''"
proof -
  have eq: "calculateTag base selected =
      take 12 (hashString (concat (map GetHash (base # selected))))"
    by (simp add: calculateTag_def hashString_def writeHashes_written New_def)
  have len: "length (calculateTag base selected) = 12"
    by (simp add: eq length_hashString)
  have "set (calculateTag base selected) \<subseteq> set hexDigits"
    unfolding eq using set_take_subset hashString_range by fast
  then have "set (calculateTag base selected) \<subseteq> set ''0123456789abcdef''"
    by (simp only: hexDigits_def)
  with eq len show ?thesis by blast
qed

section \<open>Two digests\<close>








section \<open>Fingerprints\<close>






text \<open>
  Swapping two selected layers whose fingerprints differ changes the bytes written to the
  running hash: both fingerprints have 64 characters.
\<close>

lemma writeHashes_swapped_neq:
  assumes "GetHash l \<noteq> GetHash l'"
  shows "writeHashes (Write New (GetHash base)) [l, l'] \<noteq>
     writeHashes (Write New (GetHash base)) [l', l]"
proof -
  have "length (GetHash l) = length (GetHash l')"
    by (simp add: GetHash_def length_hashString)
  then have "GetHash l @ GetHash l' \<noteq> GetHash l' @ GetHash l"
    using assms by simp
  then show ?thesis by (simp add: writeHashes_written New_def)
qed






section \<open>Port specs\<close>

lemma Split_nonempty: "Split s sep \<noteq> []"
  by (induction s) (simp_all split: list.splits)

lemma Split_no_sep: "sep \<notin> set s \<Longrightarrow> Split s sep = [s]"
  by (induction s) auto

lemma Split_at_sep: "sep \<notin> set h \<Longrightarrow> Split (h @ sep # t) sep = h # Split t sep"
  by (induction h) auto

lemma length_Split: "length (Split s sep) = Suc (count_list s sep)"
  by (induction s) (auto simp: Split_nonempty split: list.splits)

lemma hd_Split: "hd (Split s sep) = takeWhile (\<lambda>c. c \<noteq> sep) s"
  by (induction s) (auto simp: Split_nonempty split: list.splits)

lemma portParts_many: "3 \<le> length parts \<Longrightarrow> portParts parts = ([], hd parts)"
  by (cases parts rule: portParts.cases) simp_all

lemma withProtocol_if:
  "withProtocol c = (if CHR ''/'' \<in> set c then c else c @ ''/tcp'')"
  by (simp add: withProtocol_def Contains_def)

text \<open>
  C5, as stated, fails for a spec with one colon and nothing before it: \<open>Split\<close> gives
  the two pieces \<open>""\<close> and \<open>80\<close>, \<open>hostPort\<close> is empty, and the guard \<open>hostPort != ""\<close>
  skips the binding.
\<close>

theorem empty_host_part_counterexample:
  "Split '':80'' (CHR '':'') = [[], ''80'']
   \<and> publishPort ({}, Map.empty) '':80'' = ({''80/tcp''}, Map.empty)"
  by (simp add: publishPort_def withProtocol_if)

text \<open>
  C5, amended. A spec \<open>host:container\<close> with one colon and a non-empty host part exposes
  the container port (with \<open>/tcp\<close> appended when the container part contains no \<open>/\<close>)
  and binds it to the host part on 0.0.0.0; with an empty host part it exposes the
  container port and creates no binding. A spec with no colon exposes itself, with
  \<open>/tcp\<close> appended when it contains no \<open>/\<close> (\<open>80\<close> gives \<open>80/tcp\<close>, \<open>53/udp\<close> stays), and
  creates no binding.
\<close>

theorem publishPort_spec:
  "(CHR '':'' \<notin> set h \<and> CHR '':'' \<notin> set c \<and> h \<noteq> [] \<longrightarrow>
      publishPort (exposed, bindings) (h @ '':'' @ c) =
        (insert (if CHR ''/'' \<in> set c then c else c @ ''/tcp'') exposed,
         bindings((if CHR ''/'' \<in> set c then c else c @ ''/tcp'') \<mapsto>
           [\<lparr>HostIP = ''0.0.0.0'', HostPort = h\<rparr>])))
   \<and> (CHR '':'' \<notin> set c \<longrightarrow>
      publishPort (exposed, bindings) ('':'' @ c) =
        (insert (if CHR ''/'' \<in> set c then c else c @ ''/tcp'') exposed, bindings))
   \<and> (CHR '':'' \<notin> set p \<longrightarrow>
      publishPort (exposed, bindings) p =
        (insert (if CHR ''/'' \<in> set p then p else p @ ''/tcp'') exposed, bindings))"
proof -
  have two: "CHR '':'' \<notin> set h \<Longrightarrow> CHR '':'' \<notin> set c \<Longrightarrow>
      Split (h @ '':'' @ c) (CHR '':'') = [h, c]" for h c
    by (simp add: Split_at_sep Split_no_sep)
  show ?thesis
    using two [of h c] two [of "[]" c]
    by (simp add: publishPort_def withProtocol_if Split_no_sep)
qed

theorem publishPort_spec_witness:
  "publishPort ({}, Map.empty) ''8080:80'' =
     ({''80/tcp''}, [''80/tcp'' \<mapsto> [\<lparr>HostIP = ''0.0.0.0'', HostPort = ''8080''\<rparr>]])
   \<and> publishPort ({}, Map.empty) '':80'' = ({''80/tcp''}, Map.empty)
   \<and> publishPort ({}, Map.empty) ''80'' = ({''80/tcp''}, Map.empty)
   \<and> publishPort ({}, Map.empty) ''53/udp'' = ({''53/udp''}, Map.empty)"
  using publishPort_spec [of "''8080''" "''80''" "{}" Map.empty "''80''"]
    publishPort_spec [of "''8080''" "''80''" "{}" Map.empty "''53/udp''"]
  by simp

text \<open>
  C10. A port spec with two or more colons exposes the text before its first colon (with
  \<open>/tcp\<close> appended when that text contains no \<open>/\<close>), creates no host binding, and
  ignores everything after the first colon.
\<close>

theorem publishPort_many_colons:
  assumes "2 \<le> count_list p (CHR '':'')"
  shows "publishPort (exposed, bindings) p =
     (insert (if CHR ''/'' \<in> set (takeWhile (\<lambda>c. c \<noteq> CHR '':'') p)
              then takeWhile (\<lambda>c. c \<noteq> CHR '':'') p
              else takeWhile (\<lambda>c. c \<noteq> CHR '':'') p @ ''/tcp'') exposed,
      bindings)"
proof -
  from assms have "3 \<le> length (Split p (CHR '':''))"
    by (simp add: length_Split)
  then have "portParts (Split p (CHR '':'')) = ([], takeWhile (\<lambda>c. c \<noteq> CHR '':'') p)"
    by (simp add: portParts_many hd_Split)
  then show ?thesis
    by (simp add: publishPort_def withProtocol_if)
qed

theorem publishPort_many_colons_witness:
  "2 \<le> count_list ''1.2.3.4:8080:80'' (CHR '':'')
   \<and> publishPort ({}, Map.empty) ''1.2.3.4:8080:80'' = ({''1.2.3.4/tcp''}, Map.empty)"
proof -
  have c: "2 \<le> count_list ''1.2.3.4:8080:80'' (CHR '':'')" by simp
  show ?thesis
    using c publishPort_many_colons [OF c, of "{}" Map.empty] by simp
qed


section \<open>The cache check\<close>

lemma runContainer_no_build: "BuildCall d t \<notin> set (snd (runContainer b imageName vs ps))"
  unfolding runContainer_def
  by (simp split: prod.split sum.split option.split wait_result.split)

text \<open>
  C2. When the existence query for the computed image name answers true, \<open>BuildAndRun\<close>
  inspects, prints that the cached image is used and runs the container; \<open>buildImage\<close> is
  not called, and no build request reaches the engine.
\<close>

theorem cached_image_skips_build:
  assumes "imageExists b (''aig-image:'' @ calculateTag base selected) = (True, None)"
  shows "BuildAndRun b base selected =
      (fst (runContainer b (''aig-image:'' @ calculateTag base selected)
              (fst (collect base selected)) (snd (collect base selected))),
       [InspectCall (''aig-image:'' @ calculateTag base selected),
        Printed (''Using cached image '' @ (''aig-image:'' @ calculateTag base selected) @ [CHR 0x0A])]
       @ snd (runContainer b (''aig-image:'' @ calculateTag base selected)
              (fst (collect base selected)) (snd (collect base selected))))
    \<and> (\<forall>d t. BuildCall d t \<notin> set (snd (BuildAndRun b base selected)))"
proof -
  have run: "BuildAndRun b base selected =
      (fst (runContainer b (''aig-image:'' @ calculateTag base selected)
              (fst (collect base selected)) (snd (collect base selected))),
       [InspectCall (''aig-image:'' @ calculateTag base selected),
        Printed (''Using cached image '' @ (''aig-image:'' @ calculateTag base selected) @ [CHR 0x0A])]
       @ snd (runContainer b (''aig-image:'' @ calculateTag base selected)
              (fst (collect base selected)) (snd (collect base selected))))"
    using assms by (simp add: BuildAndRun_def Let_def split: prod.split)
  have "\<forall>d t. BuildCall d t \<notin> set (snd (BuildAndRun b base selected))"
    unfolding run by (simp add: runContainer_no_build)
  with run show ?thesis by blast
qed

theorem cached_image_skips_build_witness:
  "imageExists (exampleBuilder None) (''aig-image:'' @ calculateTag exampleBase []) = (True, None)
   \<and> fst (BuildAndRun (exampleBuilder None) exampleBase []) = Ok
   \<and> (\<forall>d t. BuildCall d t \<notin> set (snd (BuildAndRun (exampleBuilder None) exampleBase [])))"
proof -
  have c: "imageExists (exampleBuilder None) (''aig-image:'' @ calculateTag exampleBase []) =
      (True, None)"
    by (simp add: imageExists_def exampleBuilder_def)
  have r: "fst (runContainer (exampleBuilder None) n vs ps) = Ok" for n vs ps
    by (simp add: runContainer_def exampleBuilder_def split: prod.split)
  note t = cached_image_skips_build [OF c]
  from t have 1: "fst (BuildAndRun (exampleBuilder None) exampleBase []) = Ok"
    by (simp add: r)
  from t have 2: "\<forall>d t. BuildCall d t \<notin> set (snd (BuildAndRun (exampleBuilder None) exampleBase []))"
    by (rule conjunct2)
  from c 1 2 show ?thesis by blast
qed

text \<open>
  C7. When the image query fails with a not-found error, \<open>imageExists\<close> answers
  \<open>(false, nil)\<close> and the run goes on to \<open>buildImage\<close> (and to the container when the
  build succeeds); when it fails with any other error, \<open>imageExists\<close> returns that error
  and \<open>BuildAndRun\<close> returns it after the query alone: nothing is built, created or started.
\<close>

theorem cache_check_failure_shapes:
  assumes "ImageInspectWithRaw b (''aig-image:'' @ calculateTag base selected) = Some err"
  shows "(IsErrNotFound err \<longrightarrow>
        imageExists b (''aig-image:'' @ calculateTag base selected) = (False, None)
        \<and> BuildAndRun b base selected =
           (if fst (buildImage b (generateDockerfile base selected)
                      (''aig-image:'' @ calculateTag base selected)) = Ok
            then
              (fst (runContainer b (''aig-image:'' @ calculateTag base selected)
                      (fst (collect base selected)) (snd (collect base selected))),
               [InspectCall (''aig-image:'' @ calculateTag base selected),
                Printed (''Building image '' @ (''aig-image:'' @ calculateTag base selected)
                         @ ''...'' @ [CHR 0x0A])]
               @ snd (buildImage b (generateDockerfile base selected)
                        (''aig-image:'' @ calculateTag base selected))
               @ snd (runContainer b (''aig-image:'' @ calculateTag base selected)
                        (fst (collect base selected)) (snd (collect base selected))))
            else
              (fst (buildImage b (generateDockerfile base selected)
                      (''aig-image:'' @ calculateTag base selected)),
               [InspectCall (''aig-image:'' @ calculateTag base selected),
                Printed (''Building image '' @ (''aig-image:'' @ calculateTag base selected)
                         @ ''...'' @ [CHR 0x0A])]
               @ snd (buildImage b (generateDockerfile base selected)
                        (''aig-image:'' @ calculateTag base selected)))))
    \<and> (\<not> IsErrNotFound err \<longrightarrow>
        imageExists b (''aig-image:'' @ calculateTag base selected) = (False, Some err)
        \<and> BuildAndRun b base selected =
           (Err err, [InspectCall (''aig-image:'' @ calculateTag base selected)]))"
  using assms
  by (simp add: BuildAndRun_def imageExists_def Let_def split: prod.split outcome.split)

theorem cache_check_failure_shapes_witness:
  "imageExists (exampleBuilder (Some (ErrNotFound ''No such image''))) 
      (''aig-image:'' @ calculateTag exampleBase []) = (False, None)
   \<and> BuildAndRun (exampleBuilder (Some (ErrNotFound ''No such image''))) exampleBase [] =
      (Ok,
       [InspectCall (''aig-image:'' @ calculateTag exampleBase []),
        Printed (''Building image aig-image:'' @ calculateTag exampleBase [] @ ''...'' @ [CHR 0x0A]),
        BuildCall (''FROM ubuntu:22.04'' @ [CHR 0x0A]) (''aig-image:'' @ calculateTag exampleBase []),
        CreateCall (''aig-image:'' @ calculateTag exampleBase []) {} Map.empty [],
        StartCall ''0123456789abcdef'',
        Printed (''Container started (ID: 0123456789ab)'' @ [CHR 0x0A]),
        WaitCall ''0123456789abcdef'', LogsCall ''0123456789abcdef''])
   \<and> BuildAndRun (exampleBuilder (Some (ErrOther ''connection refused''))) exampleBase [] =
      (Err (ErrOther ''connection refused''),
       [InspectCall (''aig-image:'' @ calculateTag exampleBase [])])"
proof -
  have n: "ImageInspectWithRaw (exampleBuilder (Some (ErrNotFound ''No such image'')))
      (''aig-image:'' @ calculateTag exampleBase []) = Some (ErrNotFound ''No such image'')"
    by (simp add: exampleBuilder_def)
  have o: "ImageInspectWithRaw (exampleBuilder (Some (ErrOther ''connection refused'')))
      (''aig-image:'' @ calculateTag exampleBase []) = Some (ErrOther ''connection refused'')"
    by (simp add: exampleBuilder_def)
  have b: "buildImage (exampleBuilder i) d t = (Ok, [BuildCall d t])" for i d t
    by (simp add: buildImage_def exampleBuilder_def)
  have r: "runContainer (exampleBuilder i) t [] [] =
      (Ok, [CreateCall t {} Map.empty [], StartCall ''0123456789abcdef'',
            Printed (''Container started (ID: 0123456789ab)'' @ [CHR 0x0A]),
            WaitCall ''0123456789abcdef'', LogsCall ''0123456789abcdef''])" for i t
    by (simp add: runContainer_def exampleBuilder_def)
  have d: "generateDockerfile exampleBase [] = ''FROM ubuntu:22.04'' @ [CHR 0x0A]"
    by (simp add: generateDockerfile_def writeCommands_def exampleBase_def)
  have c: "collect exampleBase [] = ([], [])"
    by (simp add: collect_def exampleBase_def)
  show ?thesis
    using cache_check_failure_shapes [OF n] cache_check_failure_shapes [OF o]
    by (simp add: b r d c)
qed


section \<open>Stack assembly\<close>

lemma Get_absent:
  "name \<notin> dom reg \<Longrightarrow> Get reg name = Inl (Errorf (''layer '' @ name @ '' not found''))"
  by (auto simp: Get_def split: option.split)

lemma Get_present: "name \<in> dom reg \<Longrightarrow> Get reg name = Inr (the (reg name))"
  by (auto simp: Get_def split: option.split)

lemma selectLayers_stops:
  assumes "\<forall>n \<in> set pre. TrimSpace n \<in> dom reg" and "TrimSpace bad \<notin> dom reg"
  shows "selectLayers reg (pre @ bad # rest) acc evs =
     (Inl (Errorf (''layer '' @ TrimSpace bad @ '' not found'')),
      evs @ map (\<lambda>n. GetCall (TrimSpace n)) (pre @ [bad]))"
  using assms
proof (induction pre arbitrary: acc evs)
  case Nil
  then show ?case by (simp add: Get_absent)
next
  case (Cons n pre)
  then show ?case by (simp add: Get_present)
qed

lemma selectLayers_all:
  assumes "\<forall>n \<in> set names. TrimSpace n \<in> dom reg"
  shows "selectLayers reg names acc evs =
     (Inr (acc @ map (\<lambda>n. the (reg (TrimSpace n))) names),
      evs @ map (\<lambda>n. GetCall (TrimSpace n)) names)"
  using assms
proof (induction names arbitrary: acc evs)
  case Nil
  then show ?case by simp
next
  case (Cons n names)
  then show ?case by (simp add: Get_present)
qed

lemma init_registry_dom:
  "dom init_registry =
     {''python'', ''node'', ''go'', ''nginx'', ''node-pnpm'', ''opencode'', ''hello-world''}"
  by (auto simp: init_registry_def Register_def)

lemma TrimSpace_go: "TrimSpace '' go'' = ''go''"
  by (simp add: TrimSpace_def runeWidth_def spaceRunes_def)

text \<open>
  C6, as stated, fails for a name with surrounding white space: the loop looks up
  \<open>strings.TrimSpace(name)\<close>, so the requested name \<open>" go"\<close>, which is not a key of the
  registry, resolves to the layer \<open>go\<close> and the run goes on.
\<close>

theorem untrimmed_name_counterexample:
  "'' go'' \<notin> dom init_registry
   \<and> selectLayers init_registry ['' go''] [] [] =
       (Inr [DependencyLayer ''go'' [''golang''] [] []], [GetCall ''go''])
   \<and> fst (RunE (Inr (exampleBuilder None)) init_registry
         \<lparr>baseImage = ''ubuntu:22.04'', layerNames = ['' go''], topLayerName = [],
          volumes = [], ports = []\<rparr>) = Ok"
proof -
  have d: "'' go'' \<notin> dom init_registry"
    by (simp add: init_registry_dom)
  have g: "Get init_registry ''go'' = Inr (DependencyLayer ''go'' [''golang''] [] [])"
    by (simp add: Get_def init_registry_def Register_def)
  have s: "selectLayers init_registry ['' go''] [] [] =
      (Inr [DependencyLayer ''go'' [''golang''] [] []], [GetCall ''go''])"
    by (simp add: TrimSpace_go g)
  have r: "fst (runContainer (exampleBuilder None) n vs ps) = Ok" for n vs ps
    by (simp add: runContainer_def exampleBuilder_def split: prod.split)
  have r': "runContainer (exampleBuilder None) n vs ps = (x, evs) \<Longrightarrow> x = Ok" for n vs ps x evs
    using r [of n vs ps] by simp
  have e: "imageExists (exampleBuilder None) n = (True, None)" for n
    by (simp add: imageExists_def exampleBuilder_def)
  have "fst (BuildAndRun (exampleBuilder None) base sel) = Ok" for base sel
    by (auto simp: BuildAndRun_def Let_def e split: prod.split dest: r')
  then have b': "BuildAndRun (exampleBuilder None) base sel = (x, evs) \<Longrightarrow> x = Ok"
    for base sel x evs
    by (metis fst_conv)
  have "fst (RunE (Inr (exampleBuilder None)) init_registry
         \<lparr>baseImage = ''ubuntu:22.04'', layerNames = ['' go''], topLayerName = [],
          volumes = [], ports = []\<rparr>) = Ok"
    by (auto simp add: RunE_def s Let_def simp del: selectLayers.simps split: prod.split dest: b')
  with d s show ?thesis by blast
qed

text \<open>
  C6, amended. Once the builder exists: if the trimmed form of a requested layer name is
  not in the registry, and the trimmed forms of all names before it are, \<open>RunE\<close> returns
  the not-found error for that trimmed name, having looked up the names up to it and
  nothing else; if all layer names resolve and the top name is non-empty and (untrimmed)
  not in the registry, \<open>RunE\<close> returns the not-found error for the top name. In both cases
  no call reaches the engine.
\<close>

theorem unresolved_name_stops_assembly:
  "((\<forall>n \<in> set pre. TrimSpace n \<in> dom reg) \<and> TrimSpace bad \<notin> dom reg \<longrightarrow>
      RunE (Inr builder) reg
        \<lparr>baseImage = img, layerNames = pre @ bad # rest, topLayerName = topName,
         volumes = vs, ports = ps\<rparr> =
      (Err (Errorf (''layer '' @ TrimSpace bad @ '' not found'')),
       map (\<lambda>n. GetCall (TrimSpace n)) (pre @ [bad])))
   \<and> ((\<forall>n \<in> set names. TrimSpace n \<in> dom reg) \<and> topName \<noteq> [] \<and> topName \<notin> dom reg \<longrightarrow>
      RunE (Inr builder) reg
        \<lparr>baseImage = img, layerNames = names, topLayerName = topName,
         volumes = vs, ports = ps\<rparr> =
      (Err (Errorf (''layer '' @ topName @ '' not found'')),
       map (\<lambda>n. GetCall (TrimSpace n)) names @ [GetCall topName]))"
  by (simp add: RunE_def selectLayers_stops selectLayers_all Get_absent)

theorem unresolved_name_stops_assembly_witness:
  "RunE (Inr (exampleBuilder None)) init_registry
     \<lparr>baseImage = ''ubuntu:22.04'', layerNames = [''python'', ''rust'', ''go''],
      topLayerName = ''hello-world'', volumes = [], ports = []\<rparr> =
     (Err (Errorf ''layer rust not found''), [GetCall ''python'', GetCall ''rust''])
   \<and> RunE (Inr (exampleBuilder None)) init_registry
     \<lparr>baseImage = ''ubuntu:22.04'', layerNames = [''python''],
      topLayerName = ''hello'', volumes = [], ports = []\<rparr> =
     (Err (Errorf ''layer hello not found''), [GetCall ''python'', GetCall ''hello''])"
proof -
  have t: "TrimSpace ''python'' = ''python''" "TrimSpace ''rust'' = ''rust''"
    by (simp_all add: TrimSpace_def runeWidth_def spaceRunes_def)
  show ?thesis
    using unresolved_name_stops_assembly [of "[''python'']" init_registry "''rust''"
        "exampleBuilder None" "''ubuntu:22.04''" "[''go'']" "''hello-world''" "[]" "[]"
        "[''python'']"]
      unresolved_name_stops_assembly [of "[''python'']" init_registry "''rust''"
        "exampleBuilder None" "''ubuntu:22.04''" "[''go'']" "''hello''" "[]" "[]"
        "[''python'']"]
    by (simp add: t init_registry_dom)
qed

end
